theory Spec2Isabelle
  imports Complex_Main
begin

section \<open>Data model\<close>

text \<open>
  The simulation core of \<^verbatim>\<open>src/scroll-story-app/src/App.tsx\<close>: the alignment of solar
  samples with load samples, the clipping against hosting capacity, the monthly and annual
  aggregation and the zero-crossing series.

  A JavaScript \<^verbatim>\<open>number\<close> held in the input series is modelled as a \<^typ>\<open>real\<close>: the
  series hold finite values. The arithmetic of the code is modelled twice: exactly, for
  the properties that rounding preserves, and in binary64, with every operation rounded,
  for the properties that depend on it. A \<^verbatim>\<open>Date\<close> holds an integral time value in
  milliseconds, or NaN (an invalid date).
\<close>

datatype Date = ValidDate int | InvalidDate

text \<open>\<^verbatim>\<open>Date.prototype.getTime\<close>: the time value; \<open>None\<close> stands for NaN.\<close>

fun getTime :: "Date \<Rightarrow> int option" where
  "getTime (ValidDate t) = Some t"
| "getTime InvalidDate = None"

text \<open>
  \<^verbatim>\<open>new Date(v)\<close> for a number \<open>v\<close> (\<open>None\<close> is NaN): the time value is clipped, which
  gives an invalid date beyond 8.64e15 ms and truncates towards zero otherwise.
\<close>

definition newDate :: "real option \<Rightarrow> Date" where
  "newDate v =
     (case v of
        None \<Rightarrow> InvalidDate
      | Some t \<Rightarrow>
          if \<bar>t\<bar> > 8640000000000000 then InvalidDate
          else ValidDate (if t \<ge> 0 then \<lfloor>t\<rfloor> else \<lceil>t\<rceil>))"

text \<open>
  \<^verbatim>\<open>Date.prototype.getMonth\<close> reads the month in the local time zone of the host, so the
  month of a time value is a parameter \<open>localMonth\<close>; an invalid date has month NaN
  (\<open>None\<close>), which is equal to no month.
\<close>

fun getMonth :: "(int \<Rightarrow> nat) \<Rightarrow> Date \<Rightarrow> nat option" where
  "getMonth localMonth (ValidDate t) = Some (localMonth t)"
| "getMonth localMonth InvalidDate = None"

record LoadData =
  timestamp :: Date
  net_load_mw :: real

record SolarData =
  timestamp :: Date
  ac_kw_per_kwdc :: real

record MonthlyData =
  month :: nat
  productionMWh :: real
  curtailmentMWh :: real

text \<open>
  The result of a division can leave the finite numbers: \<^verbatim>\<open>a / 0\<close> is an infinity or
  NaN in JavaScript, never an exception.
\<close>

datatype number = Finite real | PosInfinity | NegInfinity | NaN

definition divide_number :: "real \<Rightarrow> real \<Rightarrow> number" where
  "divide_number a b =
     (if b \<noteq> 0 then Finite (a / b)
      else if a > 0 then PosInfinity
      else if a < 0 then NegInfinity
      else NaN)"

section \<open>Zero-crossing series\<close>

datatype error = TypeError

text \<open>An array read \<^verbatim>\<open>a[i]\<close>: \<open>None\<close> is \<^verbatim>\<open>undefined\<close>, the value out of range.\<close>

definition at_index :: "'a list \<Rightarrow> int \<Rightarrow> 'a option" where
  "at_index a i = (if 0 \<le> i \<and> i < int (length a) then Some (a ! nat i) else None)"

text \<open>
  Comparisons of a possibly undefined number with zero: \<^verbatim>\<open>undefined\<close> converts to NaN
  and every comparison with NaN is false.
\<close>

definition le_zero :: "real option \<Rightarrow> bool" where
  "le_zero v = (case v of None \<Rightarrow> False | Some r \<Rightarrow> r \<le> 0)"

definition gt_zero :: "real option \<Rightarrow> bool" where
  "gt_zero v = (case v of None \<Rightarrow> False | Some r \<Rightarrow> r > 0)"

text \<open>
  One iteration of the loop of \<^verbatim>\<open>buildReverseFlowSeries\<close>. In the output, an entry
  \<open>None\<close> of \<open>xOut\<close> is \<^verbatim>\<open>undefined\<close> and an entry \<open>None\<close> of \<open>yOut\<close> is \<^verbatim>\<open>null\<close>.
  Calling \<^verbatim>\<open>getTime\<close> on \<^verbatim>\<open>undefined\<close> throws a TypeError. The crossing time is
  computed only where both values are numbers (the test \<open>crossesZero\<close> is false
  otherwise) and are different, so the division is by a number other than zero; a NaN time
  value (\<open>None\<close>) makes the crossing time NaN.
\<close>

definition reverseFlowStep ::
  "Date list \<Rightarrow> real list \<Rightarrow> int \<Rightarrow> Date option list \<times> real option list
     \<Rightarrow> error + Date option list \<times> real option list" where
  "reverseFlowStep x y i out =
     (let x0 = at_index x i;
          x1 = at_index x (i + 1);
          y0 = at_index y i;
          y1 = at_index y (i + 1);
          xOut = fst out @ [x0];
          yOut = snd out @ [if le_zero y0 then y0 else None];
          crossesZero = ((le_zero y0 \<and> gt_zero y1) \<or> (gt_zero y0 \<and> le_zero y1))
      in if crossesZero \<and> y1 \<noteq> y0 then
           (case (x0, x1) of
              (Some d0, Some d1) \<Rightarrow>
                (let tCross = newDate
                       (case (getTime d0, getTime d1, y0, y1) of
                          (Some t0, Some t1, Some v0, Some v1) \<Rightarrow>
                            (let frac = - v0 / (v1 - v0)
                             in Some (real_of_int t0 + (real_of_int t1 - real_of_int t0) * frac))
                        | _ \<Rightarrow> None)
                 in Inr (xOut @ [Some tCross], yOut @ [Some 0]))
            | _ \<Rightarrow> Inl TypeError)
         else Inr (xOut, yOut))"

function reverseFlowLoop ::
  "Date list \<Rightarrow> real list \<Rightarrow> int \<Rightarrow> Date option list \<times> real option list
     \<Rightarrow> error + Date option list \<times> real option list" where
  "reverseFlowLoop x y i out =
     (if i < int (length x) - 1 then
        (case reverseFlowStep x y i out of
           Inl e \<Rightarrow> Inl e
         | Inr out' \<Rightarrow> reverseFlowLoop x y (i + 1) out')
      else Inr out)"
  by pat_completeness auto
termination
  by (relation "measure (\<lambda>(x, y, i, out). nat (int (length x) - 1 - i))") auto

declare reverseFlowLoop.simps [simp del]

definition buildReverseFlowSeries ::
  "Date list \<Rightarrow> real list \<Rightarrow> error + Date option list \<times> real option list" where
  "buildReverseFlowSeries x y =
     (case reverseFlowLoop x y 0 ([], []) of
        Inl e \<Rightarrow> Inl e
      | Inr out \<Rightarrow>
          (let lastIdx = int (length x) - 1;
               yLast = at_index y lastIdx
           in Inr (fst out @ [at_index x lastIdx],
                   snd out @ [if le_zero yLast then yLast else None])))"

section \<open>Alignment, clipping and aggregation\<close>

text \<open>
  The predicate of \<^verbatim>\<open>loadData.find\<close>: the two time values differ by less than one hour.
  A NaN time value makes the comparison false.
\<close>

definition withinHour :: "SolarData \<Rightarrow> LoadData \<Rightarrow> bool" where
  "withinHour s l =
     (case (getTime (LoadData.timestamp l), getTime (SolarData.timestamp s)) of
        (Some tLoad, Some tSolar) \<Rightarrow> \<bar>tLoad - tSolar\<bar> < 3600000
      | _ \<Rightarrow> False)"

definition matchingLoad :: "LoadData list \<Rightarrow> SolarData \<Rightarrow> LoadData option" where
  "matchingLoad loadData s = find (withinHour s) loadData"

text \<open>
  The body run for one solar sample, in \<^verbatim>\<open>calculateMonthlyStats\<close> and in the annual
  comparison of \<^verbatim>\<open>generatePlot\<close> alike: the accumulators are the pair
  (production, curtailment).
\<close>

definition addSample ::
  "LoadData list \<Rightarrow> real \<Rightarrow> real \<Rightarrow> SolarData \<Rightarrow> real \<times> real \<Rightarrow> real \<times> real" where
  "addSample loadData solarSize thermalLimit s acc =
     (let outputRaw = ac_kw_per_kwdc s * solarSize
      in case matchingLoad loadData s of
           None \<Rightarrow> acc
         | Some l \<Rightarrow>
             (let capacity = net_load_mw l - thermalLimit;
                  outputFI = min outputRaw capacity
              in (fst acc + outputFI, snd acc + (outputRaw - outputFI))))"

definition monthTotals ::
  "(int \<Rightarrow> nat) \<Rightarrow> LoadData list \<Rightarrow> SolarData list \<Rightarrow> real \<Rightarrow> real \<Rightarrow> nat
     \<Rightarrow> real \<times> real" where
  "monthTotals localMonth loadData solarData solarSize thermalLimit m =
     fold (\<lambda>s acc.
             if getMonth localMonth (SolarData.timestamp s) = Some m
             then addSample loadData solarSize thermalLimit s acc
             else acc)
          solarData (0, 0)"

definition calculateMonthlyStats ::
  "(int \<Rightarrow> nat) \<Rightarrow> LoadData list \<Rightarrow> SolarData list \<Rightarrow> real \<Rightarrow> real
     \<Rightarrow> MonthlyData list" where
  "calculateMonthlyStats localMonth loadData solarData solarSize thermalLimit =
     map (\<lambda>m.
            (let totals = monthTotals localMonth loadData solarData solarSize thermalLimit m
             in \<lparr>month = m, productionMWh = fst totals, curtailmentMWh = snd totals\<rparr>))
         [0..<12]"

definition calculateAnnualCurtailmentPct :: "MonthlyData list \<Rightarrow> number" where
  "calculateAnnualCurtailmentPct monthlyData =
     (let totalProduction = foldl (\<lambda>sum m. sum + productionMWh m) 0 monthlyData;
          totalCurtailment = foldl (\<lambda>sum m. sum + curtailmentMWh m) 0 monthlyData
      in if totalCurtailment > 0
         then divide_number (100 * totalCurtailment) (totalProduction + totalCurtailment)
         else Finite 0)"

text \<open>
  The annual comparison of \<^verbatim>\<open>generatePlot\<close> (section 7): for one plant size, one pass
  over all solar samples, against the constant thermal limit. The result is the pair
  (totalMWh, curtailedMWh) before the conversion to GWh.
\<close>

definition THERMAL_LIMIT :: real where
  "THERMAL_LIMIT = - 10"

definition annualTotals :: "LoadData list \<Rightarrow> SolarData list \<Rightarrow> real \<Rightarrow> real \<times> real" where
  "annualTotals loadData solarData plantSize =
     fold (addSample loadData plantSize THERMAL_LIMIT) solarData (0, 0)"

text \<open>
  The aggregation over the full year in a single pass, in the words of the specification:
  every solar sample is aligned, clipped against the capacity of its load sample and added,
  for any thermal limit. \<open>annualTotals\<close> is this pass at the constant limit.
\<close>

definition singlePassTotals ::
  "LoadData list \<Rightarrow> SolarData list \<Rightarrow> real \<Rightarrow> real \<Rightarrow> real \<times> real" where
  "singlePassTotals loadData solarData plantSize thermalLimit =
     fold (addSample loadData plantSize thermalLimit) solarData (0, 0)"

text \<open>
  The percentage of the annual comparison of \<^verbatim>\<open>generatePlot\<close> (section 7), for one
  plant size: the totals are converted to GWh, and the percentage is guarded by the
  denominator \<^verbatim>\<open>totalGWh > 0\<close>.
\<close>

definition annualComparisonPct :: "LoadData list \<Rightarrow> SolarData list \<Rightarrow> real \<Rightarrow> number" where
  "annualComparisonPct loadData solarData plantSize =
     (let totals = annualTotals loadData solarData plantSize;
          annualMWh = fst totals / 1000;
          annualCurtailedMWh = snd totals / 1000;
          totalGWh = annualMWh + annualCurtailedMWh
      in if totalGWh > 0 then divide_number (100 * annualCurtailedMWh) totalGWh else Finite 0)"

section \<open>Binary64 arithmetic\<close>

text \<open>
  A JavaScript \<^verbatim>\<open>number\<close> is an IEEE 754 binary64 value and every arithmetic operation
  rounds its exact result to the nearest such value, ties to even. The definitions above
  compute exactly; they serve the properties that rounding preserves (signs, order,
  alignment). The definitions of this section and the next round as the code does, for
  the properties that depend on it.

  \<open>round64\<close> rounds a real to binary64: the result has 53 significant bits, the exponent
  of the last place is not below -1074 (subnormal numbers), and a rounded magnitude of
  2^1024 or more is an infinity. The two zeros are not told apart: the code never
  divides by a zero that could be negative.
\<close>

function floor_log2 :: "int \<Rightarrow> int" where
  "floor_log2 n = (if n < 2 then 0 else floor_log2 (n div 2) + 1)"
  by pat_completeness auto
termination
  by (relation "measure nat") auto

declare floor_log2.simps [simp del]

definition exponent64 :: "real \<Rightarrow> int" where
  "exponent64 x =
     (if 1 \<le> \<bar>x\<bar> then floor_log2 \<lfloor>\<bar>x\<bar>\<rfloor>
      else max (- 1022) (- (floor_log2 (\<lceil>1 / \<bar>x\<bar>\<rceil> - 1) + 1)))"

definition round_even :: "real \<Rightarrow> int" where
  "round_even x =
     (let f = \<lfloor>x\<rfloor>; d = x - real_of_int f
      in if d < 1 / 2 then f
         else if 1 / 2 < d then f + 1
         else if even f then f else f + 1)"

definition round64 :: "real \<Rightarrow> number" where
  "round64 x =
     (if x = 0 then Finite 0
      else
        (let q = exponent64 x - 52;
             r = real_of_int (round_even (x / 2 powi q)) * 2 powi q
         in if 2 powi 1024 \<le> \<bar>r\<bar>
            then (if 0 < x then PosInfinity else NegInfinity)
            else Finite r))"

text \<open>The double nearest to a decimal literal of the input, as \<^verbatim>\<open>parseFloat\<close> gives it.\<close>

definition double_of :: "real \<Rightarrow> real" where
  "double_of x = (case round64 x of Finite r \<Rightarrow> r | _ \<Rightarrow> 0)"

text \<open>
  The operations on doubles: NaN is contagious, the infinities follow the IEEE rules, and
  a finite result is rounded. \<open>min64\<close> is \<^verbatim>\<open>Math.min\<close>, \<open>gt_zero64\<close> is the test
  \<^verbatim>\<open>> 0\<close>.
\<close>

definition less_zero64 :: "number \<Rightarrow> bool" where
  "less_zero64 a = (case a of Finite x \<Rightarrow> x < 0 | NegInfinity \<Rightarrow> True | _ \<Rightarrow> False)"

definition gt_zero64 :: "number \<Rightarrow> bool" where
  "gt_zero64 a = (case a of Finite x \<Rightarrow> 0 < x | PosInfinity \<Rightarrow> True | _ \<Rightarrow> False)"

fun add64 :: "number \<Rightarrow> number \<Rightarrow> number" where
  "add64 NaN b = NaN"
| "add64 a NaN = NaN"
| "add64 (Finite x) (Finite y) = round64 (x + y)"
| "add64 PosInfinity NegInfinity = NaN"
| "add64 NegInfinity PosInfinity = NaN"
| "add64 PosInfinity b = PosInfinity"
| "add64 a PosInfinity = PosInfinity"
| "add64 NegInfinity b = NegInfinity"
| "add64 a NegInfinity = NegInfinity"

fun negate64 :: "number \<Rightarrow> number" where
  "negate64 (Finite x) = Finite (- x)"
| "negate64 PosInfinity = NegInfinity"
| "negate64 NegInfinity = PosInfinity"
| "negate64 NaN = NaN"

definition sub64 :: "number \<Rightarrow> number \<Rightarrow> number" where
  "sub64 a b = add64 a (negate64 b)"

fun mul64 :: "number \<Rightarrow> number \<Rightarrow> number" where
  "mul64 NaN b = NaN"
| "mul64 a NaN = NaN"
| "mul64 (Finite x) (Finite y) = round64 (x * y)"
| "mul64 a b =
     (if a = Finite 0 \<or> b = Finite 0 then NaN
      else if less_zero64 a = less_zero64 b then PosInfinity else NegInfinity)"

fun div64 :: "number \<Rightarrow> number \<Rightarrow> number" where
  "div64 NaN b = NaN"
| "div64 a NaN = NaN"
| "div64 (Finite x) (Finite y) =
     (if y \<noteq> 0 then round64 (x / y)
      else if 0 < x then PosInfinity
      else if x < 0 then NegInfinity
      else NaN)"
| "div64 (Finite x) b = Finite 0"
| "div64 a (Finite y) = (if less_zero64 a = (y < 0) then PosInfinity else NegInfinity)"
| "div64 a b = NaN"

fun min64 :: "number \<Rightarrow> number \<Rightarrow> number" where
  "min64 NaN b = NaN"
| "min64 a NaN = NaN"
| "min64 NegInfinity b = NegInfinity"
| "min64 a NegInfinity = NegInfinity"
| "min64 PosInfinity b = b"
| "min64 a PosInfinity = a"
| "min64 (Finite x) (Finite y) = Finite (min x y)"

section \<open>The aggregation in binary64\<close>

text \<open>
  \<^verbatim>\<open>calculateMonthlyStats\<close>, \<^verbatim>\<open>calculateAnnualCurtailmentPct\<close> and the annual pass of
  \<^verbatim>\<open>generatePlot\<close> once more, statement by statement, with every operation rounded.
  The fields of the input series are doubles in the code; here they are taken as they
  are and the results of the operations are rounded. \<open>totalProduction64\<close> and
  \<open>totalCurtailment64\<close> are the two \<^verbatim>\<open>reduce\<close> sums.
\<close>

record MonthlyData64 =
  month64 :: nat
  productionMWh64 :: number
  curtailmentMWh64 :: number

definition addSample64 ::
  "LoadData list \<Rightarrow> real \<Rightarrow> real \<Rightarrow> SolarData \<Rightarrow> number \<times> number \<Rightarrow> number \<times> number" where
  "addSample64 loadData solarSize thermalLimit s acc =
     (let outputRaw = mul64 (Finite (ac_kw_per_kwdc s)) (Finite solarSize)
      in case matchingLoad loadData s of
           None \<Rightarrow> acc
         | Some l \<Rightarrow>
             (let capacity = sub64 (Finite (net_load_mw l)) (Finite thermalLimit);
                  outputFI = min64 outputRaw capacity
              in (add64 (fst acc) outputFI, add64 (snd acc) (sub64 outputRaw outputFI))))"

definition monthTotals64 ::
  "(int \<Rightarrow> nat) \<Rightarrow> LoadData list \<Rightarrow> SolarData list \<Rightarrow> real \<Rightarrow> real \<Rightarrow> nat
     \<Rightarrow> number \<times> number" where
  "monthTotals64 localMonth loadData solarData solarSize thermalLimit m =
     fold (\<lambda>s acc.
             if getMonth localMonth (SolarData.timestamp s) = Some m
             then addSample64 loadData solarSize thermalLimit s acc
             else acc)
          solarData (Finite 0, Finite 0)"

definition calculateMonthlyStats64 ::
  "(int \<Rightarrow> nat) \<Rightarrow> LoadData list \<Rightarrow> SolarData list \<Rightarrow> real \<Rightarrow> real
     \<Rightarrow> MonthlyData64 list" where
  "calculateMonthlyStats64 localMonth loadData solarData solarSize thermalLimit =
     map (\<lambda>m.
            (let totals = monthTotals64 localMonth loadData solarData solarSize thermalLimit m
             in \<lparr>month64 = m, productionMWh64 = fst totals, curtailmentMWh64 = snd totals\<rparr>))
         [0..<12]"

definition totalProduction64 :: "MonthlyData64 list \<Rightarrow> number" where
  "totalProduction64 monthlyData =
     foldl (\<lambda>sum m. add64 sum (productionMWh64 m)) (Finite 0) monthlyData"

definition totalCurtailment64 :: "MonthlyData64 list \<Rightarrow> number" where
  "totalCurtailment64 monthlyData =
     foldl (\<lambda>sum m. add64 sum (curtailmentMWh64 m)) (Finite 0) monthlyData"

definition calculateAnnualCurtailmentPct64 :: "MonthlyData64 list \<Rightarrow> number" where
  "calculateAnnualCurtailmentPct64 monthlyData =
     (let totalProduction = totalProduction64 monthlyData;
          totalCurtailment = totalCurtailment64 monthlyData
      in if gt_zero64 totalCurtailment
         then div64 (mul64 (Finite 100) totalCurtailment)
                (add64 totalProduction totalCurtailment)
         else Finite 0)"

definition singlePassTotals64 ::
  "LoadData list \<Rightarrow> SolarData list \<Rightarrow> real \<Rightarrow> real \<Rightarrow> number \<times> number" where
  "singlePassTotals64 loadData solarData plantSize thermalLimit =
     fold (addSample64 loadData plantSize thermalLimit) solarData (Finite 0, Finite 0)"

definition annualTotals64 :: "LoadData list \<Rightarrow> SolarData list \<Rightarrow> real \<Rightarrow> number \<times> number" where
  "annualTotals64 loadData solarData plantSize =
     fold (addSample64 loadData plantSize THERMAL_LIMIT) solarData (Finite 0, Finite 0)"

section \<open>Notions used in the proofs\<close>

text \<open>
  What one solar sample adds to the two accumulators, (firm output, curtailed output), and
  the test that selects the samples of a month.
\<close>

definition contribution :: "LoadData list \<Rightarrow> real \<Rightarrow> real \<Rightarrow> SolarData \<Rightarrow> real \<times> real" where
  "contribution loadData solarSize thermalLimit s =
     addSample loadData solarSize thermalLimit s (0, 0)"

definition inMonth :: "(int \<Rightarrow> nat) \<Rightarrow> nat \<Rightarrow> SolarData \<Rightarrow> bool" where
  "inMonth localMonth m s = (getMonth localMonth (SolarData.timestamp s) = Some m)"

text \<open>
  Example data: a load sample and a solar sample at a time in milliseconds, and a month
  function that cuts time into twelve equal months of 30.4375 days, counted from the epoch.
\<close>

definition loadAt :: "int \<Rightarrow> real \<Rightarrow> LoadData" where
  "loadAt t v = \<lparr>LoadData.timestamp = ValidDate t, net_load_mw = v\<rparr>"

definition solarAt :: "int \<Rightarrow> real \<Rightarrow> SolarData" where
  "solarAt t v = \<lparr>SolarData.timestamp = ValidDate t, ac_kw_per_kwdc = v\<rparr>"

definition exampleMonth :: "int \<Rightarrow> nat" where
  "exampleMonth t = nat ((t div 2629800000) mod 12)"




definition firm64 :: "LoadData list \<Rightarrow> real \<Rightarrow> real \<Rightarrow> SolarData \<Rightarrow> number" where
  "firm64 loadData solarSize thermalLimit s =
     (case matchingLoad loadData s of
        None \<Rightarrow> Finite 0
      | Some l \<Rightarrow>
          min64 (mul64 (Finite (ac_kw_per_kwdc s)) (Finite solarSize))
            (sub64 (Finite (net_load_mw l)) (Finite thermalLimit)))"

section \<open>The accumulators as sums\<close>

lemma addSample_contribution:
  "addSample ld sz lmt s acc =
     (fst acc + fst (contribution ld sz lmt s), snd acc + snd (contribution ld sz lmt s))"
  by (simp add: addSample_def contribution_def Let_def split: option.split)

lemma fold_addSample_filter:
  "fold (\<lambda>s acc. if P s then addSample ld sz lmt s acc else acc) xs acc =
     (fst acc + sum_list (map (\<lambda>s. fst (contribution ld sz lmt s)) (filter P xs)),
      snd acc + sum_list (map (\<lambda>s. snd (contribution ld sz lmt s)) (filter P xs)))"
proof (induction xs arbitrary: acc)
  case Nil
  show ?case by simp
next
  case (Cons x xs)
  show ?case
  proof (cases "P x")
    case True
    then show ?thesis
      by (simp add: Cons.IH addSample_contribution [of ld sz lmt x acc])
  next
    case False
    then show ?thesis by (simp add: Cons.IH)
  qed
qed

lemma monthTotals_sum:
  "monthTotals lm ld xs sz lmt m =
     (sum_list (map (\<lambda>s. fst (contribution ld sz lmt s)) (filter (inMonth lm m) xs)),
      sum_list (map (\<lambda>s. snd (contribution ld sz lmt s)) (filter (inMonth lm m) xs)))"
  unfolding monthTotals_def inMonth_def
  by (simp add: fold_addSample_filter)

lemma singlePassTotals_sum:
  "singlePassTotals ld xs sz lmt =
     (sum_list (map (\<lambda>s. fst (contribution ld sz lmt s)) xs),
      sum_list (map (\<lambda>s. snd (contribution ld sz lmt s)) xs))"
proof -
  have "singlePassTotals ld xs sz lmt =
      fold (\<lambda>s acc. if True then addSample ld sz lmt s acc else acc) xs (0, 0)"
    by (simp add: singlePassTotals_def)
  also have "\<dots> = (sum_list (map (\<lambda>s. fst (contribution ld sz lmt s)) xs),
      sum_list (map (\<lambda>s. snd (contribution ld sz lmt s)) xs))"
    by (simp only: fold_addSample_filter) simp
  finally show ?thesis .
qed

lemma annualTotals_singlePass:
  "annualTotals ld xs sz = singlePassTotals ld xs sz THERMAL_LIMIT"
  by (simp add: annualTotals_def singlePassTotals_def)

lemma annualTotals_sum:
  "annualTotals ld xs sz =
     (sum_list (map (\<lambda>s. fst (contribution ld sz THERMAL_LIMIT s)) xs),
      sum_list (map (\<lambda>s. snd (contribution ld sz THERMAL_LIMIT s)) xs))"
  by (simp add: annualTotals_singlePass singlePassTotals_sum)

lemma length_calculateMonthlyStats:
  "length (calculateMonthlyStats lm ld xs sz lmt) = 12"
  by (simp add: calculateMonthlyStats_def)


lemma production_calculateMonthlyStats:
  "map productionMWh (calculateMonthlyStats lm ld xs sz lmt) =
     map (\<lambda>m. sum_list (map (\<lambda>s. fst (contribution ld sz lmt s)) (filter (inMonth lm m) xs)))
       [0..<12]"
  by (simp add: calculateMonthlyStats_def Let_def o_def monthTotals_sum)

lemma curtailment_calculateMonthlyStats:
  "map curtailmentMWh (calculateMonthlyStats lm ld xs sz lmt) =
     map (\<lambda>m. sum_list (map (\<lambda>s. snd (contribution ld sz lmt s)) (filter (inMonth lm m) xs)))
       [0..<12]"
  by (simp add: calculateMonthlyStats_def Let_def o_def monthTotals_sum)

lemma entry_calculateMonthlyStats:
  "e \<in> set (calculateMonthlyStats lm ld xs sz lmt) \<Longrightarrow>
     month e < 12 \<and>
     productionMWh e =
       sum_list (map (\<lambda>s. fst (contribution ld sz lmt s)) (filter (inMonth lm (month e)) xs)) \<and>
     curtailmentMWh e =
       sum_list (map (\<lambda>s. snd (contribution ld sz lmt s)) (filter (inMonth lm (month e)) xs))"
  by (auto simp add: calculateMonthlyStats_def Let_def monthTotals_sum)

lemma contribution_unmatched:
  "matchingLoad ld s = None \<Longrightarrow> contribution ld sz lmt s = (0, 0)"
  by (simp add: contribution_def addSample_def)

lemma contribution_matched:
  "matchingLoad ld s = Some l \<Longrightarrow>
     contribution ld sz lmt s =
       (min (ac_kw_per_kwdc s * sz) (net_load_mw l - lmt),
        ac_kw_per_kwdc s * sz - min (ac_kw_per_kwdc s * sz) (net_load_mw l - lmt))"
  by (simp add: contribution_def addSample_def Let_def)

lemma curtailed_nonneg: "0 \<le> snd (contribution ld sz lmt s)"
  by (cases "matchingLoad ld s") (simp_all add: contribution_unmatched contribution_matched)


lemma sum_list_nonneg_map:
  "(\<And>x. x \<in> set xs \<Longrightarrow> 0 \<le> f x) \<Longrightarrow> (0::real) \<le> sum_list (map f xs)"
  by (induction xs) auto

lemma sum_list_zero_map:
  "(\<And>x. x \<in> set xs \<Longrightarrow> f x = 0) \<Longrightarrow> sum_list (map f xs) = (0::real)"
  by (induction xs) auto


lemma foldl_add_sum_list:
  "foldl (\<lambda>sum m. sum + f m) a ms = a + (sum_list (map f ms) :: real)"
  by (induction ms arbitrary: a) simp_all

lemma calculateAnnualCurtailmentPct_sum:
  "calculateAnnualCurtailmentPct ms =
     (if 0 < sum_list (map curtailmentMWh ms)
      then divide_number (100 * sum_list (map curtailmentMWh ms))
             (sum_list (map productionMWh ms) + sum_list (map curtailmentMWh ms))
      else Finite 0)"
  by (simp add: calculateAnnualCurtailmentPct_def foldl_add_sum_list Let_def)

section \<open>Monthly statistics of a plant of size zero\<close>

text \<open>
  Counterexample to claim C1. A plant of size 0 has raw output 0, and the firm output is
  \<open>min 0 capacity\<close>: where the matched load is below the thermal limit the capacity is
  negative, so the month gets a negative production and a positive curtailment. Here the
  load is -12 MW against a limit of -10 MW.
\<close>

theorem zero_plant_negative_capacity_counterexample:
  "productionMWh
     (calculateMonthlyStats exampleMonth [loadAt 0 (- 12)] [solarAt 0 1] 0 (- 10) ! 0) = - 2
   \<and> curtailmentMWh
     (calculateMonthlyStats exampleMonth [loadAt 0 (- 12)] [solarAt 0 1] 0 (- 10) ! 0) = 2"
  by (simp add: calculateMonthlyStats_def monthTotals_def addSample_def matchingLoad_def
      withinHour_def loadAt_def solarAt_def exampleMonth_def upt_rec)

text \<open>
  Claim C1, amended. For a plant of size 0 the aggregation returns 12 entries, and every
  entry has production 0 and curtailment 0 provided that no solar sample is matched with a
  load sample below the thermal limit (the hosting capacity at every matched load sample is
  at least 0).
\<close>

theorem zero_plant_stats_zero:
  assumes "\<forall>s\<in>set solarData. \<forall>l. matchingLoad loadData s = Some l \<longrightarrow>
             thermalLimit \<le> net_load_mw l"
  shows "length (calculateMonthlyStats localMonth loadData solarData 0 thermalLimit) = 12 \<and>
         (\<forall>e\<in>set (calculateMonthlyStats localMonth loadData solarData 0 thermalLimit).
            productionMWh e = 0 \<and> curtailmentMWh e = 0)"
proof -
  have zero: "contribution loadData 0 thermalLimit s = (0, 0)" if "s \<in> set solarData" for s
  proof (cases "matchingLoad loadData s")
    case None
    then show ?thesis by (rule contribution_unmatched)
  next
    case (Some l)
    with assms that have "thermalLimit \<le> net_load_mw l" by blast
    with Some show ?thesis by (simp add: contribution_matched)
  qed
  have "productionMWh e = 0 \<and> curtailmentMWh e = 0"
    if e: "e \<in> set (calculateMonthlyStats localMonth loadData solarData 0 thermalLimit)" for e
  proof -
    note sums = entry_calculateMonthlyStats [OF e]
    have "sum_list (map (\<lambda>s. fst (contribution loadData 0 thermalLimit s))
            (filter (inMonth localMonth (month e)) solarData)) = 0"
      by (rule sum_list_zero_map) (simp add: zero)
    moreover have "sum_list (map (\<lambda>s. snd (contribution loadData 0 thermalLimit s))
            (filter (inMonth localMonth (month e)) solarData)) = 0"
      by (rule sum_list_zero_map) (simp add: zero)
    ultimately show ?thesis using sums by simp
  qed
  then show ?thesis by (simp add: length_calculateMonthlyStats)
qed

text \<open>
  Witness for C1: a solar sample half an hour after a load sample of -5 MW, limit -10 MW.
\<close>

theorem zero_plant_stats_zero_witness:
  "matchingLoad [loadAt 0 (- 5)] (solarAt 1800000 1) = Some (loadAt 0 (- 5))
   \<and> - 10 \<le> net_load_mw (loadAt 0 (- 5))
   \<and> length (calculateMonthlyStats exampleMonth [loadAt 0 (- 5)] [solarAt 1800000 1] 0 (- 10)) = 12
   \<and> list_all (\<lambda>e. productionMWh e = 0 \<and> curtailmentMWh e = 0)
       (calculateMonthlyStats exampleMonth [loadAt 0 (- 5)] [solarAt 1800000 1] 0 (- 10))"
proof -
  have m: "matchingLoad [loadAt 0 (- 5)] (solarAt 1800000 1) = Some (loadAt 0 (- 5))"
    by (simp add: matchingLoad_def withinHour_def loadAt_def solarAt_def)
  have v: "- 10 \<le> net_load_mw (loadAt 0 (- 5))"
    by (simp add: loadAt_def)
  have h: "\<forall>s\<in>set [solarAt 1800000 1]. \<forall>l. matchingLoad [loadAt 0 (- 5)] s = Some l \<longrightarrow>
      - 10 \<le> net_load_mw l"
    using m v by simp
  show ?thesis
    using zero_plant_stats_zero [OF h, of exampleMonth] m v by (simp add: list_all_iff)
qed

section \<open>Bounds of the monthly statistics\<close>




section \<open>Monotonicity in the thermal limit\<close>



section \<open>Month buckets against a single pass\<close>

lemma if_disj_add:
  "\<not> (A \<and> B) \<Longrightarrow>
     (if A \<or> B then v else 0) = (if A then v else 0) + (if B then (v::real) else 0)"
  by auto

lemma month_buckets_partition:
  "sum_list (map (\<lambda>m. sum_list (map f (filter (\<lambda>s. g s = Some m) xs))) [0..<n]) =
     (sum_list (map f (filter (\<lambda>s. \<exists>m<n. g s = Some m) xs)) :: real)"
proof (induction n)
  case 0
  show ?case by simp
next
  case (Suc n)
  have pointwise: "(if \<exists>m<Suc n. g x = Some m then f x else 0) =
      (if \<exists>m<n. g x = Some m then f x else 0) + (if g x = Some n then f x else 0)" for x
  proof -
    have disj: "(\<exists>m<Suc n. g x = Some m) = ((\<exists>m<n. g x = Some m) \<or> g x = Some n)"
      by (auto simp add: less_Suc_eq)
    have excl: "\<not> ((\<exists>m<n. g x = Some m) \<and> g x = Some n)"
      by auto
    show ?thesis
      unfolding disj by (rule if_disj_add) (rule excl)
  qed
  have "sum_list (map f (filter (\<lambda>s. \<exists>m<Suc n. g s = Some m) xs)) =
      sum_list (map (\<lambda>x. if \<exists>m<Suc n. g x = Some m then f x else 0) xs)"
    by (rule sum_list_map_filter')
  also have "\<dots> = sum_list (map (\<lambda>x. (if \<exists>m<n. g x = Some m then f x else 0)
      + (if g x = Some n then f x else 0)) xs)"
    by (simp only: pointwise)
  also have "\<dots> = sum_list (map (\<lambda>x. if \<exists>m<n. g x = Some m then f x else 0) xs)
      + sum_list (map (\<lambda>x. if g x = Some n then f x else 0) xs)"
    by (rule sum_list_addf)
  also have "\<dots> = sum_list (map f (filter (\<lambda>s. \<exists>m<n. g s = Some m) xs))
      + sum_list (map f (filter (\<lambda>s. g s = Some n) xs))"
    by (simp only: sum_list_map_filter')
  finally have split: "sum_list (map f (filter (\<lambda>s. \<exists>m<Suc n. g s = Some m) xs)) =
      sum_list (map f (filter (\<lambda>s. \<exists>m<n. g s = Some m) xs))
      + sum_list (map f (filter (\<lambda>s. g s = Some n) xs))" .
  show ?case by (simp add: Suc.IH split)
qed

lemma unmatched_invalid:
  "SolarData.timestamp s = InvalidDate \<Longrightarrow> matchingLoad ld s = None"
  by (simp add: matchingLoad_def withinHour_def find_None_iff split: option.split)

lemma exampleMonth_less: "exampleMonth t < 12"
  by (simp add: exampleMonth_def nat_less_iff)

text \<open>
  In exact arithmetic the production of the 12 monthly entries sums to the production of
  one pass over all solar samples, for any thermal limit, and at the constant thermal
  limit to the total of the annual comparison. Every solar sample with a valid date is
  selected by exactly one of the 12 months; a sample with an invalid date is in no month
  and is matched with no load sample.
\<close>

lemma exact_production_sum_single_pass:
  assumes "\<forall>t. localMonth t < 12"
  shows "sum_list (map productionMWh
            (calculateMonthlyStats localMonth loadData solarData solarSize thermalLimit))
         = fst (singlePassTotals loadData solarData solarSize thermalLimit)
       \<and> sum_list (map productionMWh
            (calculateMonthlyStats localMonth loadData solarData solarSize THERMAL_LIMIT))
         = fst (annualTotals loadData solarData solarSize)
       \<and> (\<forall>s t. SolarData.timestamp s = ValidDate t \<longrightarrow>
            (\<exists>!m. m < 12 \<and> getMonth localMonth (SolarData.timestamp s) = Some m))"
proof -
  have one: "\<forall>s t. SolarData.timestamp s = ValidDate t \<longrightarrow>
      (\<exists>!m. m < 12 \<and> getMonth localMonth (SolarData.timestamp s) = Some m)"
    using assms by auto
  have eq: "sum_list (map productionMWh
        (calculateMonthlyStats localMonth loadData solarData solarSize lmt))
      = sum_list (map (\<lambda>s. fst (contribution loadData solarSize lmt s)) solarData)" for lmt
  proof -
    let ?f = "\<lambda>s. fst (contribution loadData solarSize lmt s)"
    let ?g = "\<lambda>s. getMonth localMonth (SolarData.timestamp s)"
    have "sum_list (map productionMWh
          (calculateMonthlyStats localMonth loadData solarData solarSize lmt))
        = sum_list (map (\<lambda>m. sum_list (map ?f (filter (\<lambda>s. ?g s = Some m) solarData))) [0..<12])"
      by (simp add: production_calculateMonthlyStats inMonth_def [abs_def])
    also have "\<dots> = sum_list (map ?f (filter (\<lambda>s. \<exists>m<12. ?g s = Some m) solarData))"
      by (rule month_buckets_partition)
    also have "\<dots> = sum_list (map ?f solarData)"
    proof (induction solarData)
      case Nil
      show ?case by simp
    next
      case (Cons s ss)
      show ?case
      proof (cases "SolarData.timestamp s")
        case (ValidDate t)
        with assms have "\<exists>m<12. ?g s = Some m" by simp
        then show ?thesis using Cons.IH by simp
      next
        case InvalidDate
        then have "?f s = 0"
          by (simp add: contribution_unmatched unmatched_invalid)
        then show ?thesis using Cons.IH by simp
      qed
    qed
    finally show ?thesis .
  qed
  have single: "sum_list (map productionMWh
        (calculateMonthlyStats localMonth loadData solarData solarSize thermalLimit))
      = fst (singlePassTotals loadData solarData solarSize thermalLimit)"
    by (simp add: eq singlePassTotals_sum)
  have annual: "sum_list (map productionMWh
        (calculateMonthlyStats localMonth loadData solarData solarSize THERMAL_LIMIT))
      = fst (annualTotals loadData solarData solarSize)"
    by (simp add: eq annualTotals_sum)
  from single annual one show ?thesis by (intro conjI)
qed

section \<open>Alignment within one hour\<close>

lemma withinHour_valid:
  "SolarData.timestamp s = ValidDate tSolar \<Longrightarrow> LoadData.timestamp l = ValidDate tLoad \<Longrightarrow>
     withinHour s l = (\<bar>tLoad - tSolar\<bar> < 3600000)"
  by (simp add: withinHour_def)

lemma withinHour_validD:
  "withinHour s l \<Longrightarrow>
     \<exists>tLoad tSolar. LoadData.timestamp l = ValidDate tLoad \<and>
       SolarData.timestamp s = ValidDate tSolar \<and> \<bar>tLoad - tSolar\<bar> < 3600000"
  by (cases "LoadData.timestamp l"; cases "SolarData.timestamp s") (simp_all add: withinHour_def)

lemma matchingLoad_None_iff:
  "(matchingLoad ld s = None) = (\<forall>l\<in>set ld. \<not> withinHour s l)"
  by (auto simp add: matchingLoad_def find_None_iff)

lemma matchingLoad_SomeD:
  "matchingLoad ld s = Some l \<Longrightarrow>
     \<exists>i<length ld. ld ! i = l \<and> withinHour s l \<and> (\<forall>j<i. \<not> withinHour s (ld ! j))"
  by (auto simp add: matchingLoad_def find_Some_iff)

lemma monthTotals_drop_unmatched:
  "matchingLoad ld s = None \<Longrightarrow>
     monthTotals lm ld (pre @ s # post) sz lmt m = monthTotals lm ld (pre @ post) sz lmt m"
  by (simp add: monthTotals_sum contribution_unmatched)

lemma stats_drop_unmatched:
  "matchingLoad ld s = None \<Longrightarrow>
     calculateMonthlyStats lm ld (pre @ s # post) sz lmt =
       calculateMonthlyStats lm ld (pre @ post) sz lmt"
  by (simp add: calculateMonthlyStats_def monthTotals_drop_unmatched)

lemma annualTotals_drop_unmatched:
  "matchingLoad ld s = None \<Longrightarrow>
     annualTotals ld (pre @ s # post) sz = annualTotals ld (pre @ post) sz"
  by (simp add: annualTotals_sum contribution_unmatched)

text \<open>
  Claim C6. For every solar sample \<open>s\<close>, the alignment returns the first load sample in
  sequence order that is within one hour of \<open>s\<close>: every load sample before it is not
  within one hour, whatever comes after it. It returns no match exactly when no load sample
  is within one hour. For valid dates, within one hour means that the time values differ by
  less than 3600000 ms. A solar sample from which every load sample is at least 3600001 ms
  away has no match, and removing it changes neither the monthly statistics (hence nor the
  annual percentage computed from them) nor the annual totals; a solar sample 3599999 ms
  away from some load sample has a match.
\<close>

theorem alignment_first_within_hour:
  "(\<forall>l. matchingLoad loadData s = Some l \<longrightarrow>
      (\<exists>i<length loadData. loadData ! i = l \<and> withinHour s l \<and>
         (\<forall>j<i. \<not> withinHour s (loadData ! j))))
   \<and> ((matchingLoad loadData s = None) = (\<forall>l\<in>set loadData. \<not> withinHour s l))
   \<and> (\<forall>l tLoad. SolarData.timestamp s = ValidDate tSolar \<and>
        LoadData.timestamp l = ValidDate tLoad \<longrightarrow>
        withinHour s l = (\<bar>tLoad - tSolar\<bar> < 3600000))
   \<and> (SolarData.timestamp s = ValidDate tSolar \<and>
       (\<forall>l\<in>set loadData. \<forall>tLoad. LoadData.timestamp l = ValidDate tLoad \<longrightarrow>
          3600001 \<le> \<bar>tLoad - tSolar\<bar>) \<longrightarrow>
        matchingLoad loadData s = None \<and>
        calculateMonthlyStats localMonth loadData (before @ s # after) solarSize thermalLimit =
          calculateMonthlyStats localMonth loadData (before @ after) solarSize thermalLimit \<and>
        annualTotals loadData (before @ s # after) solarSize =
          annualTotals loadData (before @ after) solarSize)
   \<and> (\<forall>l tLoad. SolarData.timestamp s = ValidDate tSolar \<and> l \<in> set loadData \<and>
        LoadData.timestamp l = ValidDate tLoad \<and> \<bar>tLoad - tSolar\<bar> = 3599999 \<longrightarrow>
        (\<exists>m. matchingLoad loadData s = Some m))"
proof -
  have first: "\<forall>l. matchingLoad loadData s = Some l \<longrightarrow>
      (\<exists>i<length loadData. loadData ! i = l \<and> withinHour s l \<and>
         (\<forall>j<i. \<not> withinHour s (loadData ! j)))"
    using matchingLoad_SomeD by blast
  have none: "(matchingLoad loadData s = None) = (\<forall>l\<in>set loadData. \<not> withinHour s l)"
    by (rule matchingLoad_None_iff)
  have meaning: "\<forall>l tLoad. SolarData.timestamp s = ValidDate tSolar \<and>
        LoadData.timestamp l = ValidDate tLoad \<longrightarrow>
        withinHour s l = (\<bar>tLoad - tSolar\<bar> < 3600000)"
    by (simp add: withinHour_valid)
  have outside: "matchingLoad loadData s = None \<and>
        calculateMonthlyStats localMonth loadData (before @ s # after) solarSize thermalLimit =
          calculateMonthlyStats localMonth loadData (before @ after) solarSize thermalLimit \<and>
        annualTotals loadData (before @ s # after) solarSize =
          annualTotals loadData (before @ after) solarSize"
    if tSolar: "SolarData.timestamp s = ValidDate tSolar"
      and far: "\<forall>l\<in>set loadData. \<forall>tLoad. LoadData.timestamp l = ValidDate tLoad \<longrightarrow>
          3600001 \<le> \<bar>tLoad - tSolar\<bar>"
  proof -
    have "\<not> withinHour s l" if l: "l \<in> set loadData" for l
    proof
      assume "withinHour s l"
      then obtain tLoad tSolar' where "LoadData.timestamp l = ValidDate tLoad"
        "SolarData.timestamp s = ValidDate tSolar'" "\<bar>tLoad - tSolar'\<bar> < 3600000"
        using withinHour_validD by blast
      with tSolar far l show False by fastforce
    qed
    then have unmatched: "matchingLoad loadData s = None"
      by (simp add: matchingLoad_None_iff)
    then show ?thesis
      by (simp add: stats_drop_unmatched annualTotals_drop_unmatched)
  qed
  have inside: "\<forall>l tLoad. SolarData.timestamp s = ValidDate tSolar \<and> l \<in> set loadData \<and>
        LoadData.timestamp l = ValidDate tLoad \<and> \<bar>tLoad - tSolar\<bar> = 3599999 \<longrightarrow>
        (\<exists>m. matchingLoad loadData s = Some m)"
  proof (intro allI impI)
    fix l tLoad
    assume a: "SolarData.timestamp s = ValidDate tSolar \<and> l \<in> set loadData \<and>
        LoadData.timestamp l = ValidDate tLoad \<and> \<bar>tLoad - tSolar\<bar> = 3599999"
    then have "withinHour s l" by (simp add: withinHour_valid)
    with a have "matchingLoad loadData s \<noteq> None"
      by (auto simp add: matchingLoad_None_iff)
    then show "\<exists>m. matchingLoad loadData s = Some m" by auto
  qed
  from first none meaning outside inside show ?thesis by blast
qed

text \<open>
  Witness for C6: load samples at 0 and at 3600000 ms. A solar sample at 3599999 ms is
  matched with the first one, 3599999 ms away, although the second one is 1 ms away; a
  solar sample at 7200001 ms is 3600001 ms from the nearest load sample, has no match and
  adds nothing.
\<close>

theorem alignment_first_within_hour_witness:
  "matchingLoad [loadAt 0 1, loadAt 3600000 2] (solarAt 3599999 1) = Some (loadAt 0 1)
   \<and> withinHour (solarAt 3599999 1) (loadAt 0 1)
   \<and> \<bar>3600000 - 3599999\<bar> < \<bar>0 - (3599999 :: int)\<bar>
   \<and> matchingLoad [loadAt 0 1, loadAt 3600000 2] (solarAt 7200001 1) = None
   \<and> calculateMonthlyStats exampleMonth [loadAt 0 1, loadAt 3600000 2]
        [solarAt 3599999 1, solarAt 7200001 1] 3 (- 10)
      = calculateMonthlyStats exampleMonth [loadAt 0 1, loadAt 3600000 2]
        [solarAt 3599999 1] 3 (- 10)
   \<and> annualTotals [loadAt 0 1, loadAt 3600000 2] [solarAt 3599999 1, solarAt 7200001 1] 3
      = annualTotals [loadAt 0 1, loadAt 3600000 2] [solarAt 3599999 1] 3"
proof -
  let ?ld = "[loadAt 0 1, loadAt 3600000 2]"
  let ?s1 = "solarAt 3599999 1"
  let ?s2 = "solarAt 7200001 1"
  have m1: "matchingLoad ?ld ?s1 = Some (loadAt 0 1)"
    by (simp add: matchingLoad_def withinHour_def loadAt_def solarAt_def)
  from alignment_first_within_hour [of ?ld ?s1] m1
  have "\<exists>i<length ?ld. ?ld ! i = loadAt 0 1 \<and> withinHour ?s1 (loadAt 0 1) \<and>
         (\<forall>j<i. \<not> withinHour ?s1 (?ld ! j))"
    by blast
  then have w1: "withinHour ?s1 (loadAt 0 1)" by blast
  have t2: "SolarData.timestamp ?s2 = ValidDate 7200001"
    by (simp add: solarAt_def)
  have far: "\<forall>l\<in>set ?ld. \<forall>tLoad. LoadData.timestamp l = ValidDate tLoad \<longrightarrow>
      3600001 \<le> \<bar>tLoad - 7200001\<bar>"
    by (simp add: loadAt_def)
  from alignment_first_within_hour
    [of ?ld ?s2 7200001 exampleMonth "[?s1]" "[]" 3 "- 10"] t2 far
  have "matchingLoad ?ld ?s2 = None \<and>
      calculateMonthlyStats exampleMonth ?ld ([?s1] @ ?s2 # []) 3 (- 10) =
        calculateMonthlyStats exampleMonth ?ld ([?s1] @ []) 3 (- 10) \<and>
      annualTotals ?ld ([?s1] @ ?s2 # []) 3 = annualTotals ?ld ([?s1] @ []) 3"
    by blast
  with m1 w1 show ?thesis by simp
qed

text \<open>
  Claim C10. The tolerance of one hour is strict. A solar sample \<open>s\<close> whose time value
  differs from that of a load sample \<open>l\<close> by exactly 3600000 ms is not within one hour
  of \<open>l\<close>: alone, \<open>l\<close> gives no match, and in any load series the match of \<open>s\<close> is never
  \<open>l\<close>. The sample has a match exactly when some load sample is strictly less than
  3600000 ms away; when there is none, removing the sample leaves the monthly statistics
  as they are.
\<close>

theorem alignment_tolerance_strict:
  assumes tSolar: "SolarData.timestamp s = ValidDate tSolar"
    and tLoad: "LoadData.timestamp l = ValidDate tLoad"
    and exact: "\<bar>tLoad - tSolar\<bar> = 3600000"
  shows "\<not> withinHour s l
    \<and> matchingLoad [l] s = None
    \<and> matchingLoad loadData s \<noteq> Some l
    \<and> ((\<exists>m. matchingLoad loadData s = Some m) =
        (\<exists>l'\<in>set loadData. \<exists>t'. LoadData.timestamp l' = ValidDate t' \<and>
           \<bar>t' - tSolar\<bar> < 3600000))
    \<and> ((\<forall>l'\<in>set loadData. \<forall>t'. LoadData.timestamp l' = ValidDate t' \<longrightarrow>
           3600000 \<le> \<bar>t' - tSolar\<bar>) \<longrightarrow>
        calculateMonthlyStats localMonth loadData (before @ s # after) solarSize thermalLimit =
          calculateMonthlyStats localMonth loadData (before @ after) solarSize thermalLimit)"
proof -
  have strict: "\<not> withinHour s l"
    using exact by (simp add: withinHour_valid [OF tSolar tLoad])
  then have single: "matchingLoad [l] s = None"
    by (simp add: matchingLoad_None_iff)
  have other: "matchingLoad loadData s \<noteq> Some l"
    using strict matchingLoad_SomeD by blast
  have iff: "(\<exists>m. matchingLoad loadData s = Some m) =
        (\<exists>l'\<in>set loadData. \<exists>t'. LoadData.timestamp l' = ValidDate t' \<and>
           \<bar>t' - tSolar\<bar> < 3600000)"
  proof
    assume "\<exists>m. matchingLoad loadData s = Some m"
    then have "matchingLoad loadData s \<noteq> None" by auto
    then obtain l' where l': "l' \<in> set loadData" "withinHour s l'"
      by (auto simp add: matchingLoad_None_iff)
    from withinHour_validD [OF l'(2)] tSolar l'(1)
    show "\<exists>l'\<in>set loadData. \<exists>t'. LoadData.timestamp l' = ValidDate t' \<and>
        \<bar>t' - tSolar\<bar> < 3600000"
      by auto
  next
    assume "\<exists>l'\<in>set loadData. \<exists>t'. LoadData.timestamp l' = ValidDate t' \<and>
        \<bar>t' - tSolar\<bar> < 3600000"
    then obtain l' t' where l': "l' \<in> set loadData" "LoadData.timestamp l' = ValidDate t'"
      "\<bar>t' - tSolar\<bar> < 3600000" by blast
    then have "withinHour s l'" by (simp add: withinHour_valid [OF tSolar])
    with l'(1) have "matchingLoad loadData s \<noteq> None"
      by (auto simp add: matchingLoad_None_iff)
    then show "\<exists>m. matchingLoad loadData s = Some m" by auto
  qed
  have excluded:
    "calculateMonthlyStats localMonth loadData (before @ s # after) solarSize thermalLimit =
       calculateMonthlyStats localMonth loadData (before @ after) solarSize thermalLimit"
    if far: "\<forall>l'\<in>set loadData. \<forall>t'. LoadData.timestamp l' = ValidDate t' \<longrightarrow>
        3600000 \<le> \<bar>t' - tSolar\<bar>"
  proof -
    have "\<not> (\<exists>l'\<in>set loadData. \<exists>t'. LoadData.timestamp l' = ValidDate t' \<and>
        \<bar>t' - tSolar\<bar> < 3600000)"
      using far by fastforce
    with iff have "matchingLoad loadData s = None" by auto
    then show ?thesis by (rule stats_drop_unmatched)
  qed
  from strict single other iff excluded show ?thesis by blast
qed

text \<open>
  Witness for C10: a solar sample at 3600000 ms with load samples at 0 and at 7200000 ms,
  both exactly one hour away: no match, and the statistics are those of no sample at all.
\<close>

theorem alignment_tolerance_strict_witness:
  "\<bar>0 - 3600000\<bar> = (3600000 :: int)
   \<and> \<not> withinHour (solarAt 3600000 1) (loadAt 0 1)
   \<and> matchingLoad [loadAt 0 1] (solarAt 3600000 1) = None
   \<and> matchingLoad [loadAt 0 1, loadAt 7200000 2] (solarAt 3600000 1) \<noteq> Some (loadAt 0 1)
   \<and> calculateMonthlyStats exampleMonth [loadAt 0 1, loadAt 7200000 2] [solarAt 3600000 1] 3 (- 10)
      = calculateMonthlyStats exampleMonth [loadAt 0 1, loadAt 7200000 2] [] 3 (- 10)"
proof -
  let ?ld = "[loadAt 0 1, loadAt 7200000 2]"
  let ?s = "solarAt 3600000 1"
  have tSolar: "SolarData.timestamp ?s = ValidDate 3600000"
    by (simp add: solarAt_def)
  have tLoad: "LoadData.timestamp (loadAt 0 1) = ValidDate 0"
    by (simp add: loadAt_def)
  have exact: "\<bar>0 - 3600000\<bar> = (3600000 :: int)" by simp
  have far: "\<forall>l'\<in>set ?ld. \<forall>t'. LoadData.timestamp l' = ValidDate t' \<longrightarrow>
      3600000 \<le> \<bar>t' - 3600000\<bar>"
    by (simp add: loadAt_def)
  note strict = alignment_tolerance_strict
    [OF tSolar tLoad exact, of ?ld exampleMonth "[]" "[]" 3 "- 10"]
  from strict far
  have "calculateMonthlyStats exampleMonth ?ld ([] @ ?s # []) 3 (- 10) =
      calculateMonthlyStats exampleMonth ?ld ([] @ []) 3 (- 10)"
    by blast
  with strict exact show ?thesis by simp
qed

section \<open>The zero-crossing series\<close>

lemma reverseFlowLoop_step:
  "i < int (length x) - 1 \<Longrightarrow> reverseFlowStep x y i out = Inr out' \<Longrightarrow>
     reverseFlowLoop x y i out = reverseFlowLoop x y (i + 1) out'"
  by (subst reverseFlowLoop.simps) simp

lemma reverseFlowLoop_done:
  "\<not> i < int (length x) - 1 \<Longrightarrow> reverseFlowLoop x y i out = Inr out"
  by (subst reverseFlowLoop.simps) simp

text \<open>
  Claim C9. For the two points (t0, 1) and (t0 + 3600000, -1), both valid dates, the series
  is the first point as a gap, a crossing point at exactly t0 + 1800000 with value 0, and
  the second point with its value.
\<close>

theorem zero_crossing_midpoint:
  assumes "- 8640000000000000 \<le> t0" and "t0 + 3600000 \<le> 8640000000000000"
  shows "buildReverseFlowSeries [ValidDate t0, ValidDate (t0 + 3600000)] [1, - 1] =
     Inr ([Some (ValidDate t0), Some (ValidDate (t0 + 1800000)),
           Some (ValidDate (t0 + 3600000))],
          [None, Some 0, Some (- 1)])"
proof -
  let ?x = "[ValidDate t0, ValidDate (t0 + 3600000)]"
  let ?y = "[1, - 1 :: real]"
  have cross: "real_of_int t0 + (real_of_int (t0 + 3600000) - real_of_int t0) * (- 1 / (- 1 - 1))
      = real_of_int (t0 + 1800000)"
    by simp
  have clip: "newDate (Some (real_of_int (t0 + 1800000))) = ValidDate (t0 + 1800000)"
  proof -
    have "\<bar>real_of_int (t0 + 1800000)\<bar> \<le> 8640000000000000"
      using assms by (simp add: abs_le_iff)
    then show ?thesis
      unfolding newDate_def by (simp del: of_int_add)
  qed
  have step: "reverseFlowStep ?x ?y 0 ([], []) =
      Inr ([Some (ValidDate t0), Some (ValidDate (t0 + 1800000))], [None, Some 0])"
    unfolding reverseFlowStep_def
    using clip cross by (simp add: at_index_def le_zero_def gt_zero_def)
  have "reverseFlowLoop ?x ?y 0 ([], []) =
      reverseFlowLoop ?x ?y 1
        ([Some (ValidDate t0), Some (ValidDate (t0 + 1800000))], [None, Some 0])"
    using reverseFlowLoop_step [OF _ step] by simp
  also have "\<dots> = Inr ([Some (ValidDate t0), Some (ValidDate (t0 + 1800000))], [None, Some 0])"
    by (rule reverseFlowLoop_done) simp
  finally show ?thesis
    by (simp add: buildReverseFlowSeries_def at_index_def le_zero_def)
qed

text \<open>Witness for C9: the hour that starts at 1684368000000 ms (18 May 2023, 0:00 UTC).\<close>

theorem zero_crossing_midpoint_witness:
  "buildReverseFlowSeries [ValidDate 1684368000000, ValidDate 1684371600000] [1, - 1] =
     Inr ([Some (ValidDate 1684368000000), Some (ValidDate 1684369800000),
           Some (ValidDate 1684371600000)],
          [None, Some 0, Some (- 1)])"
proof -
  have lo: "- 8640000000000000 \<le> (1684368000000 :: int)" by simp
  have hi: "(1684368000000 :: int) + 3600000 \<le> 8640000000000000" by simp
  from zero_crossing_midpoint [OF lo hi] show ?thesis by simp
qed

section \<open>Series of length 0\<close>

lemma reverseFlowStep_in_range:
  assumes "0 \<le> i" and "i < int (length x) - 1"
  shows "\<exists>out'. reverseFlowStep x y i out = Inr out'"
proof -
  from assms obtain d0 d1 where "at_index x i = Some d0" "at_index x (i + 1) = Some d1"
    by (simp add: at_index_def)
  then show ?thesis
    by (simp add: reverseFlowStep_def Let_def)
qed

lemma reverseFlowLoop_no_error:
  "0 \<le> i \<Longrightarrow> \<exists>r. reverseFlowLoop x y i out = Inr r"
proof (induction x y i out rule: reverseFlowLoop.induct)
  case (1 x y i out)
  show ?case
  proof (cases "i < int (length x) - 1")
    case True
    with "1.prems" obtain out' where step: "reverseFlowStep x y i out = Inr out'"
      using reverseFlowStep_in_range by blast
    from "1.IH" [OF True step] "1.prems"
    have "\<exists>r. reverseFlowLoop x y (i + 1) out' = Inr r" by simp
    then show ?thesis by (simp add: reverseFlowLoop_step [OF True step])
  next
    case False
    then show ?thesis by (simp add: reverseFlowLoop_done)
  qed
qed

text \<open>The zero-crossing series is computed without an exception, whatever the input.\<close>

lemma buildReverseFlowSeries_no_error:
  "\<exists>r. buildReverseFlowSeries x y = Inr r"
proof -
  obtain out where "reverseFlowLoop x y 0 ([], []) = Inr out"
    using reverseFlowLoop_no_error [of 0 x y "([], [])"] by auto
  then show ?thesis by (simp add: buildReverseFlowSeries_def Let_def)
qed

text \<open>
  With no solar sample, or with no load sample, the aggregation returns 12 entries with
  production 0 and curtailment 0.
\<close>

lemma empty_solar_stats:
  "calculateMonthlyStats lm ld [] sz lmt =
     map (\<lambda>m. \<lparr>month = m, productionMWh = 0, curtailmentMWh = 0\<rparr>) [0..<12]"
  by (simp add: calculateMonthlyStats_def monthTotals_def)

lemma empty_load_stats:
  "calculateMonthlyStats lm [] xs sz lmt =
     map (\<lambda>m. \<lparr>month = m, productionMWh = 0, curtailmentMWh = 0\<rparr>) [0..<12]"
proof -
  have "contribution [] sz lmt s = (0, 0)" for s
    by (simp add: contribution_unmatched matchingLoad_def)
  then have "monthTotals lm [] xs sz lmt m = (0, 0)" for m
    by (simp add: monthTotals_sum)
  then show ?thesis by (simp add: calculateMonthlyStats_def)
qed

text \<open>
  Claim C5, at the input on which the code departs from it. On the empty sequence the loop
  runs no iteration, and the code then pushes the point at index -1, which does not exist:
  the output has one point, \<^verbatim>\<open>undefined\<close> with value \<^verbatim>\<open>null\<close>, where the claim says
  it is empty. No exception is raised.
\<close>

theorem empty_series_one_point:
  "buildReverseFlowSeries [] [] = Inr ([None], [None])
   \<and> buildReverseFlowSeries [] [] \<noteq> Inr ([], [])"
  by (simp add: buildReverseFlowSeries_def reverseFlowLoop_done at_index_def le_zero_def)

section \<open>Rounding to binary64\<close>




























section \<open>Evaluation in binary64\<close>

lemmas eval64 = round64_def exponent64_def round_even_def floor_log2.simps Let_def
  double_of_def gt_zero64_def less_zero64_def sub64_def

lemmas evalStats64 = calculateMonthlyStats64_def monthTotals64_def addSample64_def
  matchingLoad_def withinHour_def loadAt_def solarAt_def exampleMonth_def upt_rec

lemma double_of_tenth: "double_of (1 / 10) = 3602879701896397 / 2 ^ 55"
  by (simp add: eval64)

lemma double_of_fifth: "double_of (2 / 10) = 3602879701896397 / 2 ^ 54"
  by (simp add: eval64)

lemma double_of_three_tenths: "double_of (3 / 10) = 5404319552844595 / 2 ^ 54"
  by (simp add: eval64)


section \<open>Annual curtailment percentage\<close>






text \<open>
  The total curtailment that \<open>calculateMonthlyStats\<close> returns is never negative, and on
  such inputs the code computes the quotient read as 0 at denominator 0, except where
  the denominator is 0 and the total curtailment is positive.
\<close>

lemma stats_curtailment_nonneg:
  "0 \<le> sum_list (map curtailmentMWh (calculateMonthlyStats lm ld xs sz lmt))"
proof -
  have bucket: "0 \<le> sum_list (map (\<lambda>s. snd (contribution ld sz lmt s))
      (filter (inMonth lm m) xs))" for m
    by (rule sum_list_nonneg_map) (rule curtailed_nonneg)
  show ?thesis
    unfolding curtailment_calculateMonthlyStats
    by (rule sum_list_nonneg_map) (rule bucket)
qed

lemma annual_pct_agrees_except_zero_denominator:
  assumes "0 \<le> sum_list (map curtailmentMWh ms)"
    and "\<not> (0 < sum_list (map curtailmentMWh ms) \<and>
          sum_list (map productionMWh ms) + sum_list (map curtailmentMWh ms) = 0)"
  shows "calculateAnnualCurtailmentPct ms =
     (if sum_list (map productionMWh ms) + sum_list (map curtailmentMWh ms) = 0 then Finite 0
      else Finite (100 * sum_list (map curtailmentMWh ms) /
             (sum_list (map productionMWh ms) + sum_list (map curtailmentMWh ms))))"
  using assms by (auto simp add: calculateAnnualCurtailmentPct_sum divide_number_def)

text \<open>
  Claim C3, at the input on which the code departs from it. A plant of size 0 under a
  load of -12 MW and a limit of -10 MW has total production -2 and total curtailment 2:
  the denominator is 0. The claim says the percentage is 0 there. The guard of the code
  tests the total curtailment, which is positive, so the code divides 200 by 0 and returns
  Infinity, in exact arithmetic and in binary64 alike. The percentage of the annual
  comparison, on the same totals, tests the denominator and returns 0.
\<close>

theorem annual_pct_zero_denominator_infinity:
  "sum_list (map productionMWh
       (calculateMonthlyStats exampleMonth [loadAt 0 (- 12)] [solarAt 0 1] 0 (- 10))) = - 2
   \<and> sum_list (map curtailmentMWh
       (calculateMonthlyStats exampleMonth [loadAt 0 (- 12)] [solarAt 0 1] 0 (- 10))) = 2
   \<and> calculateAnnualCurtailmentPct
       (calculateMonthlyStats exampleMonth [loadAt 0 (- 12)] [solarAt 0 1] 0 (- 10))
     = PosInfinity
   \<and> PosInfinity \<noteq> Finite 0
   \<and> calculateAnnualCurtailmentPct64
       (calculateMonthlyStats64 exampleMonth [loadAt 0 (- 12)] [solarAt 0 1] 0 (- 10))
     = PosInfinity
   \<and> annualTotals [loadAt 0 (- 12)] [solarAt 0 1] 0 = (- 2, 2)
   \<and> annualComparisonPct [loadAt 0 (- 12)] [solarAt 0 1] 0 = Finite 0"
proof -
  have a: "sum_list (map productionMWh
       (calculateMonthlyStats exampleMonth [loadAt 0 (- 12)] [solarAt 0 1] 0 (- 10))) = - 2"
    by (simp add: calculateMonthlyStats_def monthTotals_def addSample_def matchingLoad_def
        withinHour_def loadAt_def solarAt_def exampleMonth_def upt_rec)
  have b: "sum_list (map curtailmentMWh
       (calculateMonthlyStats exampleMonth [loadAt 0 (- 12)] [solarAt 0 1] 0 (- 10))) = 2"
    by (simp add: calculateMonthlyStats_def monthTotals_def addSample_def matchingLoad_def
        withinHour_def loadAt_def solarAt_def exampleMonth_def upt_rec)
  have c: "calculateAnnualCurtailmentPct
       (calculateMonthlyStats exampleMonth [loadAt 0 (- 12)] [solarAt 0 1] 0 (- 10))
     = PosInfinity"
    by (simp add: calculateAnnualCurtailmentPct_sum a b divide_number_def)
  have d: "calculateAnnualCurtailmentPct64
       (calculateMonthlyStats64 exampleMonth [loadAt 0 (- 12)] [solarAt 0 1] 0 (- 10))
     = PosInfinity"
    by (simp add: calculateAnnualCurtailmentPct64_def totalProduction64_def
        totalCurtailment64_def evalStats64 eval64)
  have e: "annualTotals [loadAt 0 (- 12)] [solarAt 0 1] 0 = (- 2, 2)"
    by (simp add: annualTotals_def THERMAL_LIMIT_def addSample_def matchingLoad_def
        withinHour_def loadAt_def solarAt_def)
  have f: "annualComparisonPct [loadAt 0 (- 12)] [solarAt 0 1] 0 = Finite 0"
    by (simp add: annualComparisonPct_def e)
  from a b c d e f show ?thesis by simp
qed

section \<open>Month buckets in binary64\<close>


lemma fst_addSample64:
  "fst (addSample64 ld sz lmt s acc) =
     (if matchingLoad ld s = None then fst acc else add64 (fst acc) (firm64 ld sz lmt s))"
  by (simp add: addSample64_def firm64_def Let_def split: option.split)

lemma fst_fold_addSample64:
  "fst (fold (\<lambda>s acc. if P s then addSample64 ld sz lmt s acc else acc) xs acc) =
     foldl add64 (fst acc)
       (map (firm64 ld sz lmt) (filter (\<lambda>s. P s \<and> matchingLoad ld s \<noteq> None) xs))"
proof (induction xs arbitrary: acc)
  case Nil
  show ?case by simp
next
  case (Cons x xs)
  show ?case
  proof (cases "P x \<and> matchingLoad ld x \<noteq> None")
    case True
    then show ?thesis by (auto simp add: Cons.IH fst_addSample64)
  next
    case False
    then have "fst (if P x then addSample64 ld sz lmt x acc else acc) = fst acc"
      by (auto simp add: fst_addSample64)
    moreover have "fold (\<lambda>s acc. if P s then addSample64 ld sz lmt s acc else acc) (x # xs) acc
        = fold (\<lambda>s acc. if P s then addSample64 ld sz lmt s acc else acc) xs
            (if P x then addSample64 ld sz lmt x acc else acc)"
      by simp
    ultimately show ?thesis using False by (simp only: Cons.IH) auto
  qed
qed

lemma production64_month:
  assumes "m < 12"
  shows "productionMWh64 (calculateMonthlyStats64 lm ld xs sz lmt ! m) =
     foldl add64 (Finite 0)
       (map (firm64 ld sz lmt)
         (filter (\<lambda>s. getMonth lm (SolarData.timestamp s) = Some m \<and> matchingLoad ld s \<noteq> None) xs))"
proof -
  have "calculateMonthlyStats64 lm ld xs sz lmt ! m =
      \<lparr>month64 = m, productionMWh64 = fst (monthTotals64 lm ld xs sz lmt m),
       curtailmentMWh64 = snd (monthTotals64 lm ld xs sz lmt m)\<rparr>"
    using assms by (simp add: calculateMonthlyStats64_def Let_def)
  then show ?thesis
    by (simp add: monthTotals64_def fst_fold_addSample64)
qed

lemma singlePass64_terms:
  "fst (singlePassTotals64 ld xs sz lmt) =
     foldl add64 (Finite 0)
       (map (firm64 ld sz lmt) (filter (\<lambda>s. matchingLoad ld s \<noteq> None) xs))"
proof -
  have "singlePassTotals64 ld xs sz lmt =
      fold (\<lambda>s acc. if True then addSample64 ld sz lmt s acc else acc) xs (Finite 0, Finite 0)"
    by (simp add: singlePassTotals64_def)
  then show ?thesis
    by (simp only: fst_fold_addSample64) simp
qed

lemma count_list_filter:
  "count_list (filter P xs) s = (if P s then count_list xs s else 0)"
  by (induction xs) auto

lemma sum_list_indicator:
  "sum_list (map (\<lambda>m. if m = k then v else 0) [0..<n]) = (if k < n then v else (0::nat))"
  by (induction n) auto

lemma month_counts:
  assumes "\<forall>t. localMonth t < 12"
  shows "sum_list (map (\<lambda>m. count_list
            (filter (\<lambda>s'. getMonth localMonth (SolarData.timestamp s') = Some m \<and>
                matchingLoad ld s' \<noteq> None) xs) s) [0..<12])
         = count_list (filter (\<lambda>s'. matchingLoad ld s' \<noteq> None) xs) s"
proof (cases "matchingLoad ld s = None")
  case True
  then show ?thesis by (simp add: count_list_filter)
next
  case False
  then have "SolarData.timestamp s \<noteq> InvalidDate"
    using unmatched_invalid [of s ld] by auto
  then obtain t where t: "SolarData.timestamp s = ValidDate t"
    by (cases "SolarData.timestamp s") simp_all
  have "(\<lambda>m. count_list
            (filter (\<lambda>s'. getMonth localMonth (SolarData.timestamp s') = Some m \<and>
                matchingLoad ld s' \<noteq> None) xs) s)
      = (\<lambda>m. if m = localMonth t then count_list xs s else 0)"
    using False t by (auto simp add: count_list_filter fun_eq_iff)
  then show ?thesis
    using assms False by (simp add: sum_list_indicator count_list_filter)
qed

text \<open>
  Counterexample to claim C8. Per-unit outputs 0.1 in one month and 0.2 and 0.3 in the
  next, a plant of 1 MW, capacity 15: the months hold 0.1 and 0.2 + 0.3 = 0.5 and sum to
  the double 0.6, while the single pass adds 0.1 + 0.2 + 0.3 in this order and gives
  0.6000000000000001.
\<close>

theorem monthly_sum_differs_from_single_pass_counterexample:
  "totalProduction64 (calculateMonthlyStats64 exampleMonth [loadAt 0 5, loadAt 3000000000 5]
     [solarAt 0 (double_of (1 / 10)), solarAt 3000000000 (double_of (2 / 10)),
      solarAt 3000001000 (double_of (3 / 10))] 1 (- 10))
     = Finite (5404319552844595 / 2 ^ 53)
   \<and> fst (singlePassTotals64 [loadAt 0 5, loadAt 3000000000 5]
     [solarAt 0 (double_of (1 / 10)), solarAt 3000000000 (double_of (2 / 10)),
      solarAt 3000001000 (double_of (3 / 10))] 1 (- 10))
     = Finite (1351079888211149 / 2 ^ 51)
   \<and> fst (annualTotals64 [loadAt 0 5, loadAt 3000000000 5]
     [solarAt 0 (double_of (1 / 10)), solarAt 3000000000 (double_of (2 / 10)),
      solarAt 3000001000 (double_of (3 / 10))] 1)
     = Finite (1351079888211149 / 2 ^ 51)
   \<and> Finite (5404319552844595 / 2 ^ 53) \<noteq> Finite (1351079888211149 / 2 ^ 51)"
  unfolding double_of_tenth double_of_fifth double_of_three_tenths
  by (simp add: totalProduction64_def singlePassTotals64_def annualTotals64_def
      THERMAL_LIMIT_def evalStats64 eval64)

text \<open>
  Claim C8, amended. For a fixed load series, solar series and configuration, the month
  bucketing neither counts a sample twice nor omits one: the production of each month is
  the sum, in series order, of the firm outputs of the matched samples of that month, the
  single-pass production is the sum, in series order, of the firm outputs of all matched
  samples, and every sample occurs in the months' selections, taken together, exactly as
  often as in the selection of the single pass. The two totals are sums of the same
  terms: they are equal in exact arithmetic, and in the code they can differ by the
  rounding of the additions, which are grouped differently. The month of a valid date is
  a month of the calendar, 0 to 11.
\<close>

theorem month_buckets_same_terms:
  assumes "\<forall>t. localMonth t < 12"
  shows "(\<forall>m<12. productionMWh64
            (calculateMonthlyStats64 localMonth loadData solarData solarSize thermalLimit ! m) =
          foldl add64 (Finite 0)
            (map (firm64 loadData solarSize thermalLimit)
              (filter (\<lambda>s. getMonth localMonth (SolarData.timestamp s) = Some m \<and>
                  matchingLoad loadData s \<noteq> None) solarData)))
       \<and> fst (singlePassTotals64 loadData solarData solarSize thermalLimit) =
          foldl add64 (Finite 0)
            (map (firm64 loadData solarSize thermalLimit)
              (filter (\<lambda>s. matchingLoad loadData s \<noteq> None) solarData))
       \<and> (\<forall>s. sum_list (map (\<lambda>m. count_list
              (filter (\<lambda>s'. getMonth localMonth (SolarData.timestamp s') = Some m \<and>
                  matchingLoad loadData s' \<noteq> None) solarData) s) [0..<12])
            = count_list (filter (\<lambda>s'. matchingLoad loadData s' \<noteq> None) solarData) s)
       \<and> sum_list (map productionMWh
            (calculateMonthlyStats localMonth loadData solarData solarSize thermalLimit))
          = fst (singlePassTotals loadData solarData solarSize thermalLimit)"
proof -
  have months: "\<forall>m<12. productionMWh64
            (calculateMonthlyStats64 localMonth loadData solarData solarSize thermalLimit ! m) =
          foldl add64 (Finite 0)
            (map (firm64 loadData solarSize thermalLimit)
              (filter (\<lambda>s. getMonth localMonth (SolarData.timestamp s) = Some m \<and>
                  matchingLoad loadData s \<noteq> None) solarData))"
    using production64_month by blast
  have pass: "fst (singlePassTotals64 loadData solarData solarSize thermalLimit) =
          foldl add64 (Finite 0)
            (map (firm64 loadData solarSize thermalLimit)
              (filter (\<lambda>s. matchingLoad loadData s \<noteq> None) solarData))"
    by (rule singlePass64_terms)
  have counts: "\<forall>s. sum_list (map (\<lambda>m. count_list
              (filter (\<lambda>s'. getMonth localMonth (SolarData.timestamp s') = Some m \<and>
                  matchingLoad loadData s' \<noteq> None) solarData) s) [0..<12])
            = count_list (filter (\<lambda>s'. matchingLoad loadData s' \<noteq> None) solarData) s"
    using month_counts [OF assms] by blast
  have exact: "sum_list (map productionMWh
            (calculateMonthlyStats localMonth loadData solarData solarSize thermalLimit))
          = fst (singlePassTotals loadData solarData solarSize thermalLimit)"
    using exact_production_sum_single_pass [OF assms] by (rule conjunct1)
  from months pass counts exact show ?thesis by (intro conjI)
qed

text \<open>
  Witness for C8: per-unit outputs 1/4 in one month, 1/2 and 1/8 in the next, a plant of
  1 MW: the second month holds 5/8 and the single pass gives 7/8.
\<close>

theorem month_buckets_same_terms_witness:
  "productionMWh64 (calculateMonthlyStats64 exampleMonth [loadAt 0 5, loadAt 3000000000 5]
       [solarAt 0 (1 / 4), solarAt 3000000000 (1 / 2), solarAt 3000001000 (1 / 8)] 1 (- 10) ! 1)
     = Finite (5 / 8)
   \<and> fst (singlePassTotals64 [loadAt 0 5, loadAt 3000000000 5]
       [solarAt 0 (1 / 4), solarAt 3000000000 (1 / 2), solarAt 3000001000 (1 / 8)] 1 (- 10))
     = Finite (7 / 8)"
proof -
  let ?ld = "[loadAt 0 5, loadAt 3000000000 5]"
  let ?sd = "[solarAt 0 (1 / 4), solarAt 3000000000 (1 / 2), solarAt 3000001000 (1 / 8)]"
  have h: "\<forall>t. exampleMonth t < 12" by (simp add: exampleMonth_less)
  note inst = month_buckets_same_terms [OF h, of ?ld ?sd 1 "- 10"]
  from inst have "productionMWh64 (calculateMonthlyStats64 exampleMonth ?ld ?sd 1 (- 10) ! 1) =
          foldl add64 (Finite 0)
            (map (firm64 ?ld 1 (- 10))
              (filter (\<lambda>s. getMonth exampleMonth (SolarData.timestamp s) = Some 1 \<and>
                  matchingLoad ?ld s \<noteq> None) ?sd))"
    by simp
  also have "\<dots> = Finite (5 / 8)"
    by (simp add: firm64_def matchingLoad_def withinHour_def loadAt_def solarAt_def
        exampleMonth_def eval64)
  finally have a: "productionMWh64 (calculateMonthlyStats64 exampleMonth ?ld ?sd 1 (- 10) ! 1)
      = Finite (5 / 8)" .
  from inst have "fst (singlePassTotals64 ?ld ?sd 1 (- 10)) =
          foldl add64 (Finite 0)
            (map (firm64 ?ld 1 (- 10)) (filter (\<lambda>s. matchingLoad ?ld s \<noteq> None) ?sd))"
    by (rule conjunct2 [THEN conjunct1])
  also have "\<dots> = Finite (7 / 8)"
    by (simp add: firm64_def matchingLoad_def withinHour_def loadAt_def solarAt_def eval64)
  finally have b: "fst (singlePassTotals64 ?ld ?sd 1 (- 10)) = Finite (7 / 8)" .
  from a b show ?thesis by (intro conjI)
qed

end
